theory Spec2Isabelle
  imports Complex_Main
begin

section \<open>Smiley Store API: the order workflow and the catalog seeding\<close>

text \<open>
  A shallow embedding of \<^verbatim>\<open>main.py\<close>: the request models, the seed data,
  \<^verbatim>\<open>serialize_doc\<close>, \<^verbatim>\<open>ensure_seed_products\<close>, \<^verbatim>\<open>list_products\<close> and
  \<^verbatim>\<open>create_order\<close>. The handlers run against a document store; the store is an
  explicit value that every operation takes and returns.
\<close>

subsection \<open>Floating point and the store handle\<close>

text \<open>
  Prices and totals are Python floats. The handlers use four float operations: the
  conversion of an integer (\<^verbatim>\<open>0.0\<close>, \<^verbatim>\<open>float(..)\<close>, the integer operand of
  \<^verbatim>\<open>price * item.quantity\<close>), \<^verbatim>\<open>+\<close>, \<^verbatim>\<open>*\<close> and \<^verbatim>\<open>round(_, 2)\<close>. They are
  parameters of the model, over an arbitrary carrier \<open>'f\<close>; no law of arithmetic is assumed
  of them, so every theorem holds for IEEE doubles as it does for exact decimals.

  \<open>handle_truth\<close> is the outcome of the truth test \<^verbatim>\<open>if db\<close> on a connected store
  handle (\<^verbatim>\<open>ensure_seed_products\<close> is the one place that tests the handle this way):
  \<open>Some b\<close> when the test answers \<open>b\<close>, \<open>None\<close> when the handle's class refuses
  truth testing and raises.
\<close>

record 'f runtime =
  float_of_int :: "int \<Rightarrow> 'f"
  float_add :: "'f \<Rightarrow> 'f \<Rightarrow> 'f"
  float_mul :: "'f \<Rightarrow> 'f \<Rightarrow> 'f"
  round2 :: "'f \<Rightarrow> 'f"
  handle_truth :: "bool option"

subsection \<open>Identifiers\<close>

text \<open>
  A store identifier is twelve bytes, here the number they spell. \<^verbatim>\<open>ObjectId(text)\<close>
  accepts exactly the texts of 24 hexadecimal digits (either case) and raises
  \<^verbatim>\<open>InvalidId\<close> on any other; \<^verbatim>\<open>str(oid)\<close> writes the 24 lower-case digits.
  (The library reads the digits with \<^verbatim>\<open>bytes.fromhex\<close>, which also skips white space
  between digit pairs: a text of 24 characters with such gaps gives an identifier of
  fewer than twelve bytes, which no stored document has. The lookup of such a text ends
  in \<^verbatim>\<open>prod = None\<close> all the same; here it is counted among the rejected texts.)
\<close>

type_synonym oid = nat

definition hex_value :: "char \<Rightarrow> nat option" where
  "hex_value c =
     (let n = (of_char c :: nat)
      in if 48 \<le> n \<and> n \<le> 57 then Some (n - 48)
         else if 97 \<le> n \<and> n \<le> 102 then Some (n - 87)
         else if 65 \<le> n \<and> n \<le> 70 then Some (n - 55)
         else None)"

definition hex_digit :: "nat \<Rightarrow> char" where
  "hex_digit v = char_of (if v < 10 then 48 + v else 87 + v)"

fun hex_decode :: "string \<Rightarrow> nat \<Rightarrow> nat option" where
  "hex_decode [] acc = Some acc"
| "hex_decode (c # cs) acc =
     (case hex_value c of None \<Rightarrow> None | Some v \<Rightarrow> hex_decode cs (16 * acc + v))"

fun hex_encode :: "nat \<Rightarrow> nat \<Rightarrow> string" where
  "hex_encode 0 n = []"
| "hex_encode (Suc k) n = hex_encode k (n div 16) @ [hex_digit (n mod 16)]"

definition ObjectId :: "string \<Rightarrow> oid option" where
  "ObjectId s = (if length s = 24 then hex_decode s 0 else None)"

definition str_oid :: "oid \<Rightarrow> string" where
  "str_oid i = hex_encode 24 i"

subsection \<open>Request models\<close>

text \<open>
  \<^verbatim>\<open>CartItem\<close>, \<^verbatim>\<open>CustomerInfo\<close> and \<^verbatim>\<open>OrderCreate\<close>. The one constraint the
  models declare is \<^verbatim>\<open>quantity: int = Field(..., ge=1, le=10)\<close>; \<^verbatim>\<open>items\<close> is a
  plain \<^verbatim>\<open>List[CartItem]\<close>.
\<close>

record CartItem =
  product_id :: string
  item_size :: string
  quantity :: int

record CustomerInfo =
  cust_name :: string
  cust_email :: string
  cust_address :: string

record OrderCreate =
  items :: "CartItem list"
  customer :: CustomerInfo

definition CartItem_valid :: "CartItem \<Rightarrow> bool" where
  "CartItem_valid item = (1 \<le> quantity item \<and> quantity item \<le> 10)"

definition OrderCreate_valid :: "OrderCreate \<Rightarrow> bool" where
  "OrderCreate_valid order = list_all CartItem_valid (items order)"

subsection \<open>Documents\<close>

text \<open>
  A product document has the keys of \<^verbatim>\<open>SEED_PRODUCTS\<close> and \<^verbatim>\<open>ProductCreate\<close>.
  \<^verbatim>\<open>create_order\<close> reads \<^verbatim>\<open>title\<close> and \<^verbatim>\<open>price\<close> with \<^verbatim>\<open>dict.get\<close>, so these two
  may be absent (\<open>None\<close>); a stored price is a float. An order document is what
  \<^verbatim>\<open>create_order\<close> builds.
\<close>

record 'f product =
  prod_title :: "string option"
  prod_description :: "string option"
  prod_price :: "'f option"
  prod_category :: string
  prod_images :: "string list"
  prod_sizes :: "string list"
  prod_in_stock :: bool

record 'f line_item =
  line_product_id :: string
  line_title :: "string option"
  line_size :: string
  line_quantity :: int
  line_unit_price :: 'f
  line_total :: 'f

record 'f order_doc =
  order_items :: "'f line_item list"
  order_customer :: CustomerInfo
  order_total :: 'f
  order_status :: string

subsection \<open>The document store\<close>

text \<open>
  Two collections, each a list of documents in insertion order, every document paired
  with its \<^verbatim>\<open>_id\<close>. The process-wide handle \<^verbatim>\<open>db\<close> is \<open>None\<close> when there is no
  connection. \<open>calls\<close> logs every operation that reaches the store, in order;
  \<open>failing\<close> lists the operations that the store answers with an error during this
  request.
\<close>

datatype store_call =
    FindOne string oid
  | Find string "string option"
  | CountDocuments string
  | InsertOne string
  | InsertMany string

record 'f store =
  products :: "(oid \<times> 'f product) list"
  orders :: "(oid \<times> 'f order_doc) list"

record 'f world =
  db :: "'f store option"
  calls :: "store_call list"
  failing :: "store_call list"

datatype exn =
    HTTPException nat string
  | RequestValidationError
  | TypeError
  | InvalidId
  | NotImplementedError
  | StoreUnavailable

text \<open>The status the HTTP layer answers with: an unhandled exception is a 500.\<close>

fun status_code :: "exn \<Rightarrow> nat" where
  "status_code (HTTPException s d) = s"
| "status_code RequestValidationError = 422"
| "status_code e = 500"

text \<open>The identifier the store gives a new document: one above every identifier in use.\<close>

fun new_oid :: "(oid \<times> 'd) list \<Rightarrow> oid" where
  "new_oid [] = 0"
| "new_oid ((i, d) # rest) = max (Suc i) (new_oid rest)"

text \<open>
  \<^verbatim>\<open>db["product"].find_one({"_id": ObjectId(text)})\<close>, in Python's evaluation order:
  subscripting a missing handle raises \<^verbatim>\<open>TypeError\<close>, then \<^verbatim>\<open>ObjectId\<close> may raise
  \<^verbatim>\<open>InvalidId\<close>, then the store is called.
\<close>

definition product_find_one ::
  "'f world \<Rightarrow> string \<Rightarrow> (exn + 'f product option) \<times> 'f world" where
  "product_find_one w text =
     (case db w of
        None \<Rightarrow> (Inl TypeError, w)
      | Some s \<Rightarrow>
          (case ObjectId text of
             None \<Rightarrow> (Inl InvalidId, w)
           | Some i \<Rightarrow>
               (if FindOne ''product'' i \<in> set (failing w) then Inl StoreUnavailable
                else Inr (map_of (products s) i),
                w\<lparr>calls := calls w @ [FindOne ''product'' i]\<rparr>)))"

text \<open>\<^verbatim>\<open>db["order"].find_one({"_id": ObjectId(text)})\<close>; the document comes with its \<^verbatim>\<open>_id\<close>.\<close>

definition order_find_one ::
  "'f world \<Rightarrow> string \<Rightarrow> (exn + (oid \<times> 'f order_doc) option) \<times> 'f world" where
  "order_find_one w text =
     (case db w of
        None \<Rightarrow> (Inl TypeError, w)
      | Some s \<Rightarrow>
          (case ObjectId text of
             None \<Rightarrow> (Inl InvalidId, w)
           | Some i \<Rightarrow>
               (if FindOne ''order'' i \<in> set (failing w) then Inl StoreUnavailable
                else Inr (map_option (Pair i) (map_of (orders s) i)),
                w\<lparr>calls := calls w @ [FindOne ''order'' i]\<rparr>)))"

text \<open>
  Modelled from the spec: \<^verbatim>\<open>create_document\<close> of the module \<^verbatim>\<open>database\<close>, which is
  not among the sources. The spec's \<^verbatim>\<open>create(collection, document) -> identifier\<close>
  "inserts a new record; returns its assigned identifier" and "fails with
  StoreUnavailable if no backing connection exists"; the identifier goes back in its
  text form. This is the instance for the collection \<^verbatim>\<open>order\<close>.
\<close>

definition create_document_order ::
  "'f world \<Rightarrow> 'f order_doc \<Rightarrow> (exn + string) \<times> 'f world" where
  "create_document_order w doc =
     (case db w of
        None \<Rightarrow> (Inl StoreUnavailable, w)
      | Some s \<Rightarrow>
          (if InsertOne ''order'' \<in> set (failing w)
           then (Inl StoreUnavailable, w\<lparr>calls := calls w @ [InsertOne ''order'']\<rparr>)
           else (Inr (str_oid (new_oid (orders s))),
                 w\<lparr>db := Some (s\<lparr>orders := orders s @ [(new_oid (orders s), doc)]\<rparr>),
                   calls := calls w @ [InsertOne ''order'']\<rparr>)))"

subsection \<open>serialize_doc\<close>

text \<open>
  \<^verbatim>\<open>serialize_doc\<close> replaces the key \<^verbatim>\<open>_id\<close> by \<^verbatim>\<open>id\<close>, holding the identifier's
  text. Its second loop turns top-level \<^verbatim>\<open>ObjectId\<close> values into text; neither a
  product nor an order document has one besides \<^verbatim>\<open>_id\<close>.
\<close>

definition serialize_doc :: "oid \<times> 'd \<Rightarrow> string \<times> 'd" where
  "serialize_doc doc = (str_oid (fst doc), snd doc)"

subsection \<open>Seed data and the catalog listing\<close>

text \<open>
  \<^verbatim>\<open>SEED_PRODUCTS\<close>, key by key. The float literals \<^verbatim>\<open>59.0\<close>, \<^verbatim>\<open>24.0\<close>, \<^verbatim>\<open>72.0\<close>
  and \<^verbatim>\<open>29.0\<close> are the floats of these integers. Strings are byte lists: the hyphen of
  the second description is U+2011, three bytes in UTF-8.
\<close>

definition SEED_PRODUCTS :: "'f runtime \<Rightarrow> 'f product list" where
  "SEED_PRODUCTS R =
     [\<lparr>prod_title = Some ''Smiley Classic Hoodie'',
       prod_description = Some ''Cozy fleece hoodie with the iconic Smiley front print.'',
       prod_price = Some (float_of_int R 59),
       prod_category = ''hoodies'',
       prod_images = [''https://images.unsplash.com/photo-1548883354-7622d03acae1?q=80&w=1600&auto=format&fit=crop''],
       prod_sizes = [''S'', ''M'', ''L'', ''XL''],
       prod_in_stock = True\<rparr>,
      \<lparr>prod_title = Some ''Smiley Minimal Tee'',
       prod_description = Some (''Soft cotton t'' @ [CHR 0xE2, CHR 0x80, CHR 0x91] @
                                ''shirt with a subtle embroidered smile.''),
       prod_price = Some (float_of_int R 24),
       prod_category = ''t-shirts'',
       prod_images = [''https://images.unsplash.com/photo-1512436991641-6745cdb1723f?q=80&w=1600&auto=format&fit=crop''],
       prod_sizes = [''S'', ''M'', ''L'', ''XL''],
       prod_in_stock = True\<rparr>,
      \<lparr>prod_title = Some ''Smiley Oversized Hoodie'',
       prod_description = Some ''Premium heavyweight hoodie, oversized fit.'',
       prod_price = Some (float_of_int R 72),
       prod_category = ''hoodies'',
       prod_images = [''https://images.unsplash.com/photo-1544441893-675973e31985?q=80&w=1600&auto=format&fit=crop''],
       prod_sizes = [''S'', ''M'', ''L'', ''XL''],
       prod_in_stock = True\<rparr>,
      \<lparr>prod_title = Some ''Smiley Retro Tee'',
       prod_description = Some ''90s inspired graphic tee with retro smile.'',
       prod_price = Some (float_of_int R 29),
       prod_category = ''t-shirts'',
       prod_images = [''https://images.unsplash.com/photo-1503342217505-b0a15cf70489?q=80&w=1600&auto=format&fit=crop''],
       prod_sizes = [''S'', ''M'', ''L'', ''XL''],
       prod_in_stock = True\<rparr>]"

text \<open>\<^verbatim>\<open>insert_many\<close>: the documents are appended in order, each under a new identifier.\<close>

fun insert_many :: "(oid \<times> 'd) list \<Rightarrow> 'd list \<Rightarrow> (oid \<times> 'd) list" where
  "insert_many coll [] = coll"
| "insert_many coll (d # ds) = insert_many (coll @ [(new_oid coll, d)]) ds"

text \<open>
  \<^verbatim>\<open>db["product"].count_documents({}) if db else 0\<close>: the condition is tested first.
  \<^verbatim>\<open>None\<close> is false; a connected handle answers as \<open>handle_truth\<close> says.
\<close>

definition count_products :: "'f runtime \<Rightarrow> 'f world \<Rightarrow> (exn + nat) \<times> 'f world" where
  "count_products R w =
     (case db w of
        None \<Rightarrow> (Inr 0, w)
      | Some s \<Rightarrow>
          (case handle_truth R of
             None \<Rightarrow> (Inl NotImplementedError, w)
           | Some False \<Rightarrow> (Inr 0, w)
           | Some True \<Rightarrow>
               (if CountDocuments ''product'' \<in> set (failing w) then Inl StoreUnavailable
                else Inr (length (products s)),
                w\<lparr>calls := calls w @ [CountDocuments ''product'']\<rparr>)))"

text \<open>\<^verbatim>\<open>db["product"].insert_many(SEED_PRODUCTS)\<close>\<close>

definition insert_seed_products :: "'f runtime \<Rightarrow> 'f world \<Rightarrow> (exn + unit) \<times> 'f world" where
  "insert_seed_products R w =
     (case db w of
        None \<Rightarrow> (Inl TypeError, w)
      | Some s \<Rightarrow>
          (if InsertMany ''product'' \<in> set (failing w)
           then (Inl StoreUnavailable, w\<lparr>calls := calls w @ [InsertMany ''product'']\<rparr>)
           else (Inr (),
                 w\<lparr>db := Some (s\<lparr>products := insert_many (products s) (SEED_PRODUCTS R)\<rparr>),
                   calls := calls w @ [InsertMany ''product'']\<rparr>)))"

text \<open>
  \<^verbatim>\<open>ensure_seed_products\<close>: the whole body is inside \<^verbatim>\<open>try\<close> with
  \<^verbatim>\<open>except Exception: pass\<close>, so it returns nothing and raises nothing.
\<close>

definition ensure_seed_products :: "'f runtime \<Rightarrow> 'f world \<Rightarrow> 'f world" where
  "ensure_seed_products R w =
     (case count_products R w of
        (Inl e, w1) \<Rightarrow> w1
      | (Inr count, w1) \<Rightarrow>
          (if count = 0 then snd (insert_seed_products R w1) else w1))"

text \<open>
  Modelled from the spec: \<^verbatim>\<open>get_documents\<close> of the module \<^verbatim>\<open>database\<close>, which is
  not among the sources. The spec's \<^verbatim>\<open>find_many(collection, filter)\<close> "fetches all
  matching a simple equality filter (e.g., by category); no pagination", and without a
  connection "reads return empty". This is the instance for the collection
  \<^verbatim>\<open>product\<close>; the filter is \<open>None\<close> for \<^verbatim>\<open>{}\<close> and \<open>Some c\<close> for
  \<^verbatim>\<open>{"category": c}\<close>.
\<close>

definition get_documents_product ::
  "'f world \<Rightarrow> string option \<Rightarrow> (exn + (oid \<times> 'f product) list) \<times> 'f world" where
  "get_documents_product w query =
     (case db w of
        None \<Rightarrow> (Inr [], w)
      | Some s \<Rightarrow>
          (if Find ''product'' query \<in> set (failing w) then Inl StoreUnavailable
           else Inr (filter (\<lambda>doc. case query of None \<Rightarrow> True
                                   | Some c \<Rightarrow> prod_category (snd doc) = c) (products s)),
           w\<lparr>calls := calls w @ [Find ''product'' query]\<rparr>))"

text \<open>
  \<^verbatim>\<open>list_products\<close>: \<^verbatim>\<open>{"category": category} if category else {}\<close> takes the empty
  filter for a missing and for an empty category.
\<close>

definition list_products ::
  "'f runtime \<Rightarrow> 'f world \<Rightarrow> string option \<Rightarrow> (exn + (string \<times> 'f product) list) \<times> 'f world" where
  "list_products R w category =
     (let w1 = ensure_seed_products R w;
          query = (case category of None \<Rightarrow> None
                   | Some c \<Rightarrow> if c = [] then None else Some c)
      in case get_documents_product w1 query of
           (Inl e, w2) \<Rightarrow> (Inl e, w2)
         | (Inr found, w2) \<Rightarrow> (Inr (map serialize_doc found), w2))"

subsection \<open>create_order\<close>

text \<open>
  The \<^verbatim>\<open>try\<close> block at the head of the loop body: any exception of the lookup is
  caught and leaves \<^verbatim>\<open>prod = None\<close>. \<open>lookup_product\<close> is the value of \<^verbatim>\<open>prod\<close>
  after the block, with the store as the lookup left it; \<open>resolve\<close> is that value alone.
\<close>

definition lookup_product :: "'f world \<Rightarrow> string \<Rightarrow> 'f product option \<times> 'f world" where
  "lookup_product w text =
     (case product_find_one w text of
        (Inl e, w1) \<Rightarrow> (None, w1)
      | (Inr p, w1) \<Rightarrow> (p, w1))"

definition resolve :: "'f world \<Rightarrow> string \<Rightarrow> 'f product option" where
  "resolve w text = fst (lookup_product w text)"

text \<open>
  The loop of \<^verbatim>\<open>create_order\<close> over \<^verbatim>\<open>order.items\<close>, with its two accumulators.
  A document that \<^verbatim>\<open>find_one\<close> returns has a key \<^verbatim>\<open>_id\<close>, so \<^verbatim>\<open>not prod\<close> holds for
  \<^verbatim>\<open>None\<close> only. \<^verbatim>\<open>prod.get("price", 0)\<close> is \<open>0\<close> when the key is absent, and
  \<^verbatim>\<open>float\<close> leaves a float as it is.
\<close>

fun order_loop ::
  "'f runtime \<Rightarrow> CartItem list \<Rightarrow> 'f \<Rightarrow> 'f line_item list \<Rightarrow> 'f world
     \<Rightarrow> (exn + 'f \<times> 'f line_item list) \<times> 'f world" where
  "order_loop R [] total' items_serialized w = (Inr (total', items_serialized), w)"
| "order_loop R (item # rest) total' items_serialized w =
     (case lookup_product w (product_id item) of
        (None, w1) \<Rightarrow>
          (Inl (HTTPException 404 (''Product not found: '' @ product_id item)), w1)
      | (Some found, w1) \<Rightarrow>
          (let price = (case prod_price found of None \<Rightarrow> float_of_int R 0 | Some p \<Rightarrow> p);
               line_total' = float_mul R price (float_of_int R (quantity item))
           in order_loop R rest (float_add R total' line_total')
                (items_serialized @
                   [\<lparr>line_product_id = product_id item,
                     line_title = prod_title found,
                     line_size = item_size item,
                     line_quantity = quantity item,
                     line_unit_price = price,
                     line_total = line_total'\<rparr>])
                w1))"

text \<open>
  After the loop: build the order document, \<^verbatim>\<open>create_document\<close>, fetch the saved
  document again and serialize it. Nothing here is inside a \<^verbatim>\<open>try\<close>;
  \<^verbatim>\<open>serialize_doc(None)\<close> raises \<^verbatim>\<open>TypeError\<close>.
\<close>

definition create_order ::
  "'f runtime \<Rightarrow> 'f world \<Rightarrow> OrderCreate \<Rightarrow> (exn + string \<times> 'f order_doc) \<times> 'f world" where
  "create_order R w order =
     (case order_loop R (items order) (float_of_int R 0) [] w of
        (Inl e, w1) \<Rightarrow> (Inl e, w1)
      | (Inr (total', items_serialized), w1) \<Rightarrow>
          (case create_document_order w1
                  \<lparr>order_items = items_serialized,
                   order_customer = customer order,
                   order_total = round2 R total',
                   order_status = ''received''\<rparr> of
             (Inl e, w2) \<Rightarrow> (Inl e, w2)
           | (Inr order_id, w2) \<Rightarrow>
               (case order_find_one w2 order_id of
                  (Inl e, w3) \<Rightarrow> (Inl e, w3)
                | (Inr None, w3) \<Rightarrow> (Inl TypeError, w3)
                | (Inr (Some saved), w3) \<Rightarrow> (Inr (serialize_doc saved), w3))))"

text \<open>
  The route \<^verbatim>\<open>POST /api/order\<close>: the framework validates the body against
  \<^verbatim>\<open>OrderCreate\<close> and calls the handler only with a valid one; an invalid body is
  answered with a validation error (status 422).
\<close>

definition post_api_order ::
  "'f runtime \<Rightarrow> 'f world \<Rightarrow> OrderCreate \<Rightarrow> (exn + string \<times> 'f order_doc) \<times> 'f world" where
  "post_api_order R w body =
     (if OrderCreate_valid body then create_order R w body
      else (Inl RequestValidationError, w))"

subsection \<open>Observations used in the statements\<close>

text \<open>
  The store calls that the lookup of one product identifier issues (none without a
  connection, none for a text that \<^verbatim>\<open>ObjectId\<close> rejects), and those of a list of cart
  items looked up one after the other.
\<close>

definition find_calls :: "'f world \<Rightarrow> string \<Rightarrow> store_call list" where
  "find_calls w text =
     (case db w of
        None \<Rightarrow> []
      | Some s \<Rightarrow> (case ObjectId text of None \<Rightarrow> [] | Some i \<Rightarrow> [FindOne ''product'' i]))"

definition lookup_calls :: "'f world \<Rightarrow> CartItem list \<Rightarrow> store_call list" where
  "lookup_calls w xs = concat (map (\<lambda>x. find_calls w (product_id x)) xs)"

text \<open>The line item that one pass of the loop body appends, for an item and its product.\<close>

definition order_line :: "'f runtime \<Rightarrow> CartItem \<Rightarrow> 'f product \<Rightarrow> 'f line_item" where
  "order_line R item found =
     \<lparr>line_product_id = product_id item,
      line_title = prod_title found,
      line_size = item_size item,
      line_quantity = quantity item,
      line_unit_price = (case prod_price found of None \<Rightarrow> float_of_int R 0 | Some p \<Rightarrow> p),
      line_total =
        float_mul R (case prod_price found of None \<Rightarrow> float_of_int R 0 | Some p \<Rightarrow> p)
          (float_of_int R (quantity item))\<rparr>"

text \<open>
  The store calls that write to the collection \<^verbatim>\<open>product\<close>, and what it means that
  a handler left the catalog alone between two states: the collection is the same and
  the call log has no further write to it.
\<close>

fun writes_products :: "store_call \<Rightarrow> bool" where
  "writes_products (InsertOne c) = (c = ''product'')"
| "writes_products (InsertMany c) = (c = ''product'')"
| "writes_products c = False"

definition same_catalog :: "'f world \<Rightarrow> 'f world \<Rightarrow> bool" where
  "same_catalog w w' =
     (map_option products (db w') = map_option products (db w) \<and>
      filter writes_products (calls w') = filter writes_products (calls w))"

subsection \<open>Concrete instances\<close>

text \<open>
  For evaluating the model on concrete requests: exact decimal arithmetic, where
  \<^verbatim>\<open>round(x, 2)\<close> is the nearest hundredth, ties to even. It is not Python's float
  arithmetic in general; the concrete requests below keep to prices and totals that a
  binary float holds exactly (integers and eighths), where sums, products and the
  rounding of an exact tie agree with it. In \<open>decimal_runtime\<close> the
  truth test of a connected handle answers true; in \<open>strict_runtime\<close> the handle refuses
  the test, as a PyMongo 4 \<^verbatim>\<open>Database\<close> does (its \<^verbatim>\<open>__bool__\<close> raises
  \<^verbatim>\<open>NotImplementedError\<close>).
\<close>

definition decimal_round2 :: "rat \<Rightarrow> rat" where
  "decimal_round2 x =
     (let y = x * 100; f = \<lfloor>y\<rfloor>; d = y - of_int f
      in of_int (if d < 1 / 2 then f else if 1 / 2 < d then f + 1
                 else if even f then f else f + 1) / 100)"

definition decimal_runtime :: "rat runtime" where
  "decimal_runtime =
     \<lparr>float_of_int = of_int, float_add = (+), float_mul = (*), round2 = decimal_round2,
      handle_truth = Some True\<rparr>"

definition strict_runtime :: "rat runtime" where
  "strict_runtime = decimal_runtime\<lparr>handle_truth := None\<rparr>"

definition empty_shop :: "rat world" where
  "empty_shop = \<lparr>db = Some \<lparr>products = [], orders = []\<rparr>, calls = [], failing = []\<rparr>"

definition seeded_store :: "rat store" where
  "seeded_store =
     \<lparr>products = insert_many [] (SEED_PRODUCTS decimal_runtime), orders = []\<rparr>"

definition seeded_shop :: "rat world" where
  "seeded_shop = \<lparr>db = Some seeded_store, calls = [], failing = []\<rparr>"

text \<open>The seeded shop during a request in which the store fails the lookup of product 1.\<close>

definition flaky_shop :: "rat world" where
  "flaky_shop = seeded_shop\<lparr>failing := [FindOne ''product'' 1]\<rparr>"

definition offline_shop :: "rat world" where
  "offline_shop = \<lparr>db = None, calls = [], failing = []\<rparr>"

definition alice :: CustomerInfo where
  "alice = \<lparr>cust_name = ''Alice'', cust_email = ''alice@example.com'',
            cust_address = ''1 Main Street''\<rparr>"

text \<open>
  Carts: two hoodies (the first seed product); a hoodie, an identifier that is no
  \<^verbatim>\<open>ObjectId\<close> and a tee; a hoodie and a tee, the hoodie in a size the product does not
  list; a tee in a quantity out of range; no item at all.
\<close>

definition hoodie_order :: OrderCreate where
  "hoodie_order =
     \<lparr>items = [\<lparr>product_id = ''000000000000000000000000'', item_size = ''M'', quantity = 2\<rparr>],
      customer = alice\<rparr>"

definition broken_order :: OrderCreate where
  "broken_order =
     \<lparr>items = [\<lparr>product_id = ''000000000000000000000000'', item_size = ''M'', quantity = 2\<rparr>,
               \<lparr>product_id = ''does-not-exist'', item_size = ''L'', quantity = 1\<rparr>,
               \<lparr>product_id = ''000000000000000000000001'', item_size = ''S'', quantity = 1\<rparr>],
      customer = alice\<rparr>"

definition pair_order :: OrderCreate where
  "pair_order =
     \<lparr>items = [\<lparr>product_id = ''000000000000000000000000'', item_size = ''XXXL'', quantity = 1\<rparr>,
               \<lparr>product_id = ''000000000000000000000001'', item_size = ''S'', quantity = 3\<rparr>],
      customer = alice\<rparr>"

definition bulk_order :: OrderCreate where
  "bulk_order =
     \<lparr>items = [\<lparr>product_id = ''000000000000000000000001'', item_size = ''S'', quantity = 11\<rparr>],
      customer = alice\<rparr>"

definition empty_order :: OrderCreate where
  "empty_order = \<lparr>items = [], customer = alice\<rparr>"

text \<open>
  A shop that also sells a sticker at \<^verbatim>\<open>0.125\<close>, and a cart of two hoodies, three
  stickers and a tee: the line totals are \<^verbatim>\<open>118.0\<close>, \<^verbatim>\<open>0.375\<close> and \<^verbatim>\<open>24.0\<close>, their
  sum \<^verbatim>\<open>142.375\<close> is not a multiple of a hundredth, and \<^verbatim>\<open>round(142.375, 2)\<close> is
  \<^verbatim>\<open>142.38\<close>.
\<close>

definition sticker :: "rat product" where
  "sticker =
     \<lparr>prod_title = Some ''Smiley Sticker'', prod_description = None,
      prod_price = Some (1 / 8), prod_category = ''stickers'', prod_images = [],
      prod_sizes = [''S'', ''M'', ''L'', ''XL''], prod_in_stock = True\<rparr>"

definition outlet_store :: "rat store" where
  "outlet_store =
     \<lparr>products = insert_many [] (SEED_PRODUCTS decimal_runtime @ [sticker]), orders = []\<rparr>"

definition outlet_shop :: "rat world" where
  "outlet_shop = \<lparr>db = Some outlet_store, calls = [], failing = []\<rparr>"

definition sticker_order :: OrderCreate where
  "sticker_order =
     \<lparr>items = [\<lparr>product_id = ''000000000000000000000000'', item_size = ''M'', quantity = 2\<rparr>,
               \<lparr>product_id = ''000000000000000000000004'', item_size = ''S'', quantity = 3\<rparr>,
               \<lparr>product_id = ''000000000000000000000001'', item_size = ''L'', quantity = 1\<rparr>],
      customer = alice\<rparr>"

section \<open>Properties\<close>

subsection \<open>Identifiers\<close>

lemma hex_value_digit: "v < 16 \<Longrightarrow> hex_value (hex_digit v) = Some v"
  by (auto simp: hex_value_def hex_digit_def Let_def)

lemma hex_decode_append:
  "hex_decode (xs @ ys) acc =
     (case hex_decode xs acc of None \<Rightarrow> None | Some a \<Rightarrow> hex_decode ys a)"
  by (induction xs arbitrary: acc) (auto split: option.splits)

lemma length_hex_encode: "length (hex_encode k n) = k"
  by (induction k arbitrary: n) auto

lemma hex_decode_encode:
  "hex_decode (hex_encode k n) acc = Some (acc * 16 ^ k + n mod 16 ^ k)"
proof (induction k arbitrary: n acc)
  case 0
  then show ?case by simp
next
  case (Suc k)
  have "n div 16 mod 16 ^ k * 16 + n mod 16 = n mod (16 * 16 ^ k)"
    by (simp add: mod_mult2_eq mult.commute)
  then show ?case
    by (simp add: hex_decode_append Suc hex_value_digit algebra_simps)
qed

text \<open>An identifier survives the trip through its text form.\<close>

lemma ObjectId_str_oid: "i < 16 ^ 24 \<Longrightarrow> ObjectId (str_oid i) = Some i"
  unfolding ObjectId_def str_oid_def
  by (simp only: length_hex_encode hex_decode_encode if_True) simp

lemma new_oid_above: "(i, d) \<in> set coll \<Longrightarrow> i < new_oid coll"
  by (induction coll rule: new_oid.induct) auto

lemma new_oid_fresh: "map_of coll (new_oid coll) = None"
  unfolding map_of_eq_None_iff using new_oid_above[of "new_oid coll" _ coll] by force

lemma map_of_inserted: "map_of (coll @ [(new_oid coll, d)]) (new_oid coll) = Some d"
  by (simp add: map_add_def new_oid_fresh)

subsection \<open>The lookup and the loop\<close>

lemma lookup_product_eq:
  "lookup_product w t = (resolve w t, w\<lparr>calls := calls w @ find_calls w t\<rparr>)"
  by (simp add: resolve_def lookup_product_def product_find_one_def find_calls_def
      split: option.splits)

lemma resolve_calls [simp]: "resolve (w\<lparr>calls := c\<rparr>) t = resolve w t"
  by (simp add: resolve_def lookup_product_def product_find_one_def split: option.splits)

lemma find_calls_calls [simp]: "find_calls (w\<lparr>calls := c\<rparr>) t = find_calls w t"
  by (simp add: find_calls_def)

lemma lookup_calls_calls [simp]: "lookup_calls (w\<lparr>calls := c\<rparr>) xs = lookup_calls w xs"
  by (simp add: lookup_calls_def)

lemma lookup_calls_simps [simp]:
  "lookup_calls w [] = []"
  "lookup_calls w (x # xs) = find_calls w (product_id x) @ lookup_calls w xs"
  "lookup_calls w (xs @ ys) = lookup_calls w xs @ lookup_calls w ys"
  by (simp_all add: lookup_calls_def)

text \<open>When every item resolves, the loop runs to its end.\<close>

lemma order_loop_resolved:
  "map (\<lambda>x. resolve w (product_id x)) xs = map Some ps \<Longrightarrow>
   order_loop R xs t acc w =
     (Inr (foldl (float_add R) t (map line_total (map2 (order_line R) xs ps)),
           acc @ map2 (order_line R) xs ps),
      w\<lparr>calls := calls w @ lookup_calls w xs\<rparr>)"
proof (induction xs arbitrary: ps t acc w)
  case Nil
  then show ?case by simp
next
  case (Cons x xs)
  from Cons.prems obtain p ps' where ps: "ps = p # ps'"
    and p: "resolve w (product_id x) = Some p"
    and rest: "map (\<lambda>x. resolve w (product_id x)) xs = map Some ps'"
    by (cases ps) auto
  show ?case
    using Cons.IH[of "w\<lparr>calls := calls w @ find_calls w (product_id x)\<rparr>" ps'] rest
    by (simp add: ps p lookup_product_eq Let_def order_line_def)
qed

text \<open>The loop stops at the first item that does not resolve.\<close>

lemma order_loop_unresolved:
  "map (\<lambda>x. resolve w (product_id x)) pre = map Some ps \<Longrightarrow>
   resolve w (product_id it) = None \<Longrightarrow>
   order_loop R (pre @ it # post) t acc w =
     (Inl (HTTPException 404 (''Product not found: '' @ product_id it)),
      w\<lparr>calls := calls w @ lookup_calls w (pre @ [it])\<rparr>)"
proof (induction pre arbitrary: ps t acc w)
  case Nil
  then show ?case by (simp add: lookup_product_eq)
next
  case (Cons x xs)
  from Cons.prems obtain p ps' where ps: "ps = p # ps'"
    and p: "resolve w (product_id x) = Some p"
    and rest: "map (\<lambda>x. resolve w (product_id x)) xs = map Some ps'"
    by (cases ps) auto
  show ?case
    using Cons.IH[of "w\<lparr>calls := calls w @ find_calls w (product_id x)\<rparr>" ps'] rest
      Cons.prems(2)
    by (simp add: ps p lookup_product_eq Let_def)
qed

subsection \<open>The handler\<close>

lemma create_order_steps:
  "order_loop R (items order) (float_of_int R 0) [] w = (Inr (t, ls), w1) \<Longrightarrow>
   create_document_order w1
     \<lparr>order_items = ls, order_customer = customer order, order_total = round2 R t,
      order_status = ''received''\<rparr> = (Inr order_id, w2) \<Longrightarrow>
   order_find_one w2 order_id = (Inr (Some saved), w3) \<Longrightarrow>
   create_order R w order = (Inr (serialize_doc saved), w3)"
  by (simp add: create_order_def)

text \<open>
  The complete outcome of a placement whose items all resolve, on a store that takes the
  insert and the fetch and has an identifier left.
\<close>

lemma create_order_placed:
  assumes conn: "db w = Some s"
    and found: "map (\<lambda>x. resolve w (product_id x)) (items order) = map Some ps"
    and ins: "InsertOne ''order'' \<notin> set (failing w)"
    and get: "FindOne ''order'' (new_oid (orders s)) \<notin> set (failing w)"
    and room: "new_oid (orders s) < 16 ^ 24"
    and doc: "doc =
       \<lparr>order_items = map2 (order_line R) (items order) ps,
        order_customer = customer order,
        order_total = round2 R (foldl (float_add R) (float_of_int R 0)
                         (map line_total (map2 (order_line R) (items order) ps))),
        order_status = ''received''\<rparr>"
  shows "create_order R w order =
     (Inr (str_oid (new_oid (orders s)), doc),
      w\<lparr>db := Some (s\<lparr>orders := orders s @ [(new_oid (orders s), doc)]\<rparr>),
        calls := calls w @ lookup_calls w (items order) @
                 [InsertOne ''order'', FindOne ''order'' (new_oid (orders s))]\<rparr>)"
proof -
  define n where "n = new_oid (orders s)"
  define ls where "ls = map2 (order_line R) (items order) ps"
  define t where "t = foldl (float_add R) (float_of_int R 0) (map line_total ls)"
  define w1 where "w1 = w\<lparr>calls := calls w @ lookup_calls w (items order)\<rparr>"
  define w2 where "w2 = w1\<lparr>db := Some (s\<lparr>orders := orders s @ [(n, doc)]\<rparr>),
                         calls := calls w1 @ [InsertOne ''order'']\<rparr>"
  define w3 where "w3 = w2\<lparr>calls := calls w2 @ [FindOne ''order'' n]\<rparr>"
  have doc': "doc = \<lparr>order_items = ls, order_customer = customer order,
      order_total = round2 R t, order_status = ''received''\<rparr>"
    unfolding doc ls_def t_def ..
  have loop: "order_loop R (items order) (float_of_int R 0) [] w = (Inr (t, ls), w1)"
    using order_loop_resolved[OF found, of R "float_of_int R 0" "[]"]
    unfolding t_def ls_def w1_def by simp
  have ins': "create_document_order w1 doc = (Inr (str_oid n), w2)"
    using conn ins by (simp add: create_document_order_def w1_def w2_def n_def)
  have "map_of (orders s @ [(n, doc)]) n = Some doc"
    unfolding n_def by (rule map_of_inserted)
  then have get': "order_find_one w2 (str_oid n) = (Inr (Some (n, doc)), w3)"
    using get room ObjectId_str_oid[of n]
    by (simp add: order_find_one_def w3_def w2_def w1_def n_def)
  have "create_order R w order = (Inr (serialize_doc (n, doc)), w3)"
    by (rule create_order_steps[OF loop ins'[unfolded doc'] get'])
  then show ?thesis
    by (simp add: serialize_doc_def w3_def w2_def w1_def n_def)
qed

text \<open>The complete outcome of a placement with an item that does not resolve.\<close>

lemma create_order_unresolved:
  assumes "items order = pre @ it # post"
    and "map (\<lambda>x. resolve w (product_id x)) pre = map Some ps"
    and "resolve w (product_id it) = None"
  shows "create_order R w order =
     (Inl (HTTPException 404 (''Product not found: '' @ product_id it)),
      w\<lparr>calls := calls w @ lookup_calls w (pre @ [it])\<rparr>)"
  using assms by (simp add: create_order_def order_loop_unresolved)

lemma find_first:
  "find P xs = Some y \<Longrightarrow> \<exists>post. xs = takeWhile (\<lambda>x. \<not> P x) xs @ y # post \<and> P y"
  by (induction xs) (auto split: if_splits)

lemma map_Some_the:
  "\<forall>x\<in>set xs. f x \<noteq> None \<Longrightarrow> map f xs = map Some (map (\<lambda>x. the (f x)) xs)"
  by (induction xs) auto

lemma create_order_first_unresolved:
  assumes "items order = pre @ it # post"
    and "\<forall>x\<in>set pre. resolve w (product_id x) \<noteq> None"
    and "resolve w (product_id it) = None"
  shows "create_order R w order =
     (Inl (HTTPException 404 (''Product not found: '' @ product_id it)),
      w\<lparr>calls := calls w @ lookup_calls w (pre @ [it])\<rparr>)"
  using create_order_unresolved[OF assms(1) map_Some_the[OF assms(2)] assms(3)] .

lemma resolve_malformed: "ObjectId t = None \<Longrightarrow> resolve w t = None"
  by (simp add: resolve_def lookup_product_def product_find_one_def split: option.splits)

lemma find_calls_malformed: "ObjectId t = None \<Longrightarrow> find_calls w t = []"
  by (simp add: find_calls_def split: option.splits)

lemma resolve_store_failure: "fst (product_find_one w t) = Inl e \<Longrightarrow> resolve w t = None"
  by (cases "product_find_one w t") (simp add: resolve_def lookup_product_def)

text \<open>The line items of a cart, field by field.\<close>

lemma order_lines_fields:
  assumes "length xs = length ps"
  shows "map line_product_id (map2 (order_line R) xs ps) = map product_id xs"
    and "map line_size (map2 (order_line R) xs ps) = map item_size xs"
    and "map line_quantity (map2 (order_line R) xs ps) = map quantity xs"
    and "map line_title (map2 (order_line R) xs ps) = map prod_title ps"
    and "map line_unit_price (map2 (order_line R) xs ps) =
           map (\<lambda>p. case prod_price p of None \<Rightarrow> float_of_int R 0 | Some v \<Rightarrow> v) ps"
  using assms by (induction xs ps rule: list_induct2) (simp_all add: order_line_def)

lemma order_lines_totals:
  "map line_total (map2 (order_line R) xs ps) =
     map (\<lambda>l. float_mul R (line_unit_price l) (float_of_int R (line_quantity l)))
       (map2 (order_line R) xs ps)"
  by (induction xs arbitrary: ps) (auto simp: order_line_def split: list.splits prod.splits
      simp: zip_Cons1)

lemma order_lines_explicit:
  "map2 (order_line R) xs ps =
     map2 (\<lambda>x p.
        \<lparr>line_product_id = product_id x,
         line_title = prod_title p,
         line_size = item_size x,
         line_quantity = quantity x,
         line_unit_price = (case prod_price p of None \<Rightarrow> float_of_int R 0 | Some v \<Rightarrow> v),
         line_total =
           float_mul R (case prod_price p of None \<Rightarrow> float_of_int R 0 | Some v \<Rightarrow> v)
             (float_of_int R (quantity x))\<rparr>) xs ps"
  by (simp add: order_line_def)

subsection \<open>The catalog under an order placement\<close>

lemma same_catalog_refl: "same_catalog w w"
  by (simp add: same_catalog_def)

lemma same_catalog_trans: "same_catalog a b \<Longrightarrow> same_catalog b c \<Longrightarrow> same_catalog a c"
  by (simp add: same_catalog_def)

lemma find_calls_no_write: "filter writes_products (find_calls w t) = []"
  by (simp add: find_calls_def split: option.splits)

lemma lookup_product_same_catalog: "same_catalog w (snd (lookup_product w t))"
  by (simp add: lookup_product_eq same_catalog_def find_calls_no_write)

lemma order_loop_same_catalog: "same_catalog w (snd (order_loop R xs t acc w))"
proof (induction xs arbitrary: t acc w)
  case Nil
  then show ?case by (simp add: same_catalog_refl)
next
  case (Cons x xs)
  obtain r w1 where look: "lookup_product w (product_id x) = (r, w1)"
    by (cases "lookup_product w (product_id x)")
  then have step: "same_catalog w w1"
    using lookup_product_same_catalog[of w "product_id x"] by simp
  show ?case
  proof (cases r)
    case None
    with look step show ?thesis by simp
  next
    case (Some p)
    with look show ?thesis
      using same_catalog_trans[OF step Cons.IH[of w1]] by (simp add: Let_def)
  qed
qed

lemma create_document_order_same_catalog:
  "same_catalog w (snd (create_document_order w d))"
  by (simp add: create_document_order_def same_catalog_def split: option.splits)

lemma order_find_one_same_catalog: "same_catalog w (snd (order_find_one w t))"
  by (simp add: order_find_one_def same_catalog_def split: option.splits)

lemma create_order_same_catalog: "same_catalog w (snd (create_order R w order))"
proof -
  obtain r1 w1 where loop: "order_loop R (items order) (float_of_int R 0) [] w = (r1, w1)"
    by (cases "order_loop R (items order) (float_of_int R 0) [] w")
  then have s1: "same_catalog w w1"
    using order_loop_same_catalog[of w R "items order" "float_of_int R 0" "[]"] by simp
  show ?thesis
  proof (cases r1)
    case (Inl e)
    with loop s1 show ?thesis by (simp add: create_order_def)
  next
    case (Inr tl)
    obtain t ls where tl: "tl = (t, ls)" by (cases tl)
    define doc where "doc = \<lparr>order_items = ls, order_customer = customer order,
        order_total = round2 R t, order_status = ''received''\<rparr>"
    obtain r2 w2 where ins: "create_document_order w1 doc = (r2, w2)"
      by (cases "create_document_order w1 doc")
    then have s2: "same_catalog w w2"
      using create_document_order_same_catalog[of w1 doc] s1
      by (auto intro: same_catalog_trans)
    show ?thesis
    proof (cases r2)
      case (Inl e)
      with loop Inr tl ins s2 show ?thesis by (simp add: create_order_def doc_def)
    next
      case inserted: (Inr order_id)
      obtain r3 w3 where get: "order_find_one w2 order_id = (r3, w3)"
        by (cases "order_find_one w2 order_id")
      then have s3: "same_catalog w w3"
        using order_find_one_same_catalog[of w2 order_id] s2
        by (auto intro: same_catalog_trans)
      with loop Inr tl ins inserted get show ?thesis
        by (simp add: create_order_def doc_def split: sum.splits option.splits)
    qed
  qed
qed

subsection \<open>Seeding\<close>

text \<open>
  When the truth test of the connected handle answers true and the store takes the three
  calls, listing an empty catalog inserts the four seed products and returns them.
\<close>

lemma list_products_seeds_empty_store:
  assumes "db w = Some s"
    and "products s = []"
    and "handle_truth R = Some True"
    and "CountDocuments ''product'' \<notin> set (failing w)"
    and "InsertMany ''product'' \<notin> set (failing w)"
    and "Find ''product'' None \<notin> set (failing w)"
  shows "list_products R w None =
     (Inr (zip (map str_oid [0, 1, 2, 3]) (SEED_PRODUCTS R)),
      w\<lparr>db := Some (s\<lparr>products := zip [0, 1, 2, 3] (SEED_PRODUCTS R)\<rparr>),
        calls := calls w @
          [CountDocuments ''product'', InsertMany ''product'', Find ''product'' None]\<rparr>)"
  using assms
  by (simp add: list_products_def ensure_seed_products_def count_products_def
      insert_seed_products_def get_documents_product_def serialize_doc_def SEED_PRODUCTS_def
      numeral_2_eq_2 numeral_3_eq_3)

text \<open>
  When the handle refuses the truth test, the exception is swallowed before any store
  call and nothing is seeded.
\<close>

lemma ensure_seed_products_refused:
  "handle_truth R = None \<Longrightarrow> db w = Some s \<Longrightarrow> ensure_seed_products R w = w"
  by (simp add: ensure_seed_products_def count_products_def)

subsection \<open>Evaluation of the concrete instances\<close>

lemma ObjectId_examples:
  "ObjectId ''000000000000000000000000'' = Some 0"
  "ObjectId ''000000000000000000000001'' = Some 1"
  "ObjectId ''does-not-exist'' = None"
  by (simp_all add: ObjectId_def hex_value_def)

lemma str_oid_examples:
  "str_oid 0 = ''000000000000000000000000''"
  "str_oid 1 = ''000000000000000000000001''"
  "str_oid 2 = ''000000000000000000000002''"
  "str_oid 3 = ''000000000000000000000003''"
  by code_simp+

lemma seeded_products:
  "products seeded_store = zip [0, 1, 2, 3] (SEED_PRODUCTS decimal_runtime)"
  by (simp add: seeded_store_def SEED_PRODUCTS_def)

lemma resolve_seeded:
  "resolve seeded_shop ''000000000000000000000000'' = Some (SEED_PRODUCTS decimal_runtime ! 0)"
  "resolve seeded_shop ''000000000000000000000001'' = Some (SEED_PRODUCTS decimal_runtime ! 1)"
  "resolve seeded_shop ''does-not-exist'' = None"
  by (simp_all add: resolve_def lookup_product_def product_find_one_def seeded_shop_def
      ObjectId_examples seeded_products SEED_PRODUCTS_def)

lemma find_calls_seeded:
  "find_calls seeded_shop ''000000000000000000000000'' = [FindOne ''product'' 0]"
  "find_calls seeded_shop ''000000000000000000000001'' = [FindOne ''product'' 1]"
  "find_calls seeded_shop ''does-not-exist'' = []"
  by (simp_all add: find_calls_def seeded_shop_def ObjectId_examples)

lemma resolve_flaky:
  "resolve flaky_shop ''000000000000000000000000'' = Some (SEED_PRODUCTS decimal_runtime ! 0)"
  "fst (product_find_one flaky_shop ''000000000000000000000001'') = Inl StoreUnavailable"
  by (simp_all add: resolve_def lookup_product_def product_find_one_def flaky_shop_def
      seeded_shop_def ObjectId_examples seeded_products SEED_PRODUCTS_def)

lemma find_calls_flaky:
  "find_calls flaky_shop ''000000000000000000000000'' = [FindOne ''product'' 0]"
  "find_calls flaky_shop ''000000000000000000000001'' = [FindOne ''product'' 1]"
  by (simp_all add: find_calls_def flaky_shop_def seeded_shop_def ObjectId_examples)

lemma seeded_shop_fields:
  "db seeded_shop = Some seeded_store"
  "failing seeded_shop = []"
  "calls seeded_shop = []"
  "orders seeded_store = []"
  by (simp_all add: seeded_shop_def seeded_store_def)

lemma decimal_ops:
  "float_of_int decimal_runtime n = of_int n"
  "float_add decimal_runtime x y = x + y"
  "float_mul decimal_runtime x y = x * y"
  "round2 decimal_runtime x = decimal_round2 x"
  by (simp_all add: decimal_runtime_def)

lemma seed_prices:
  "prod_price (SEED_PRODUCTS decimal_runtime ! 0) = Some 59"
  "prod_price (SEED_PRODUCTS decimal_runtime ! 1) = Some 24"
  "prod_title (SEED_PRODUCTS decimal_runtime ! 0) = Some ''Smiley Classic Hoodie''"
  "prod_title (SEED_PRODUCTS decimal_runtime ! 1) = Some ''Smiley Minimal Tee''"
  "prod_sizes (SEED_PRODUCTS decimal_runtime ! 0) = [''S'', ''M'', ''L'', ''XL'']"
  "prod_price (SEED_PRODUCTS decimal_runtime ! Suc 0) = Some 24"
  "prod_title (SEED_PRODUCTS decimal_runtime ! Suc 0) = Some ''Smiley Minimal Tee''"
  by (simp_all add: SEED_PRODUCTS_def decimal_runtime_def)

lemma decimal_round2_examples:
  "decimal_round2 118 = 118"
  "decimal_round2 131 = 131"
  "decimal_round2 0 = 0"
  by (simp_all add: decimal_round2_def Let_def)

lemma outlet_shop_fields:
  "db outlet_shop = Some outlet_store"
  "failing outlet_shop = []"
  "calls outlet_shop = []"
  "orders outlet_store = []"
  by (simp_all add: outlet_shop_def outlet_store_def)

lemma outlet_products:
  "products outlet_store = zip [0, 1, 2, 3, 4] (SEED_PRODUCTS decimal_runtime @ [sticker])"
  by (simp add: outlet_store_def SEED_PRODUCTS_def)

lemma ObjectId_four: "ObjectId ''000000000000000000000004'' = Some 4"
  by (simp add: ObjectId_def hex_value_def)

lemma resolve_outlet:
  "resolve outlet_shop ''000000000000000000000000'' = Some (SEED_PRODUCTS decimal_runtime ! 0)"
  "resolve outlet_shop ''000000000000000000000001'' = Some (SEED_PRODUCTS decimal_runtime ! 1)"
  "resolve outlet_shop ''000000000000000000000004'' = Some sticker"
  by (simp_all add: resolve_def lookup_product_def product_find_one_def outlet_shop_def
      ObjectId_examples ObjectId_four outlet_products SEED_PRODUCTS_def)

lemma sticker_price: "prod_price sticker = Some (1 / 8)"
  by (simp add: sticker_def)

lemma decimal_round2_tie: "decimal_round2 (1139 / 8) = 7119 / 50"
proof -
  have "\<lfloor>(28475 :: rat) / 2\<rfloor> = 14237"
    by (simp add: floor_eq_iff)
  then show ?thesis
    by (simp add: decimal_round2_def Let_def)
qed

lemma sticker_order_placed:
  "fst (create_order decimal_runtime outlet_shop sticker_order) =
     Inr (''000000000000000000000000'',
          \<lparr>order_items =
             [\<lparr>line_product_id = ''000000000000000000000000'',
               line_title = Some ''Smiley Classic Hoodie'', line_size = ''M'',
               line_quantity = 2, line_unit_price = 59, line_total = 118\<rparr>,
              \<lparr>line_product_id = ''000000000000000000000004'',
               line_title = Some ''Smiley Sticker'', line_size = ''S'',
               line_quantity = 3, line_unit_price = 1 / 8, line_total = 3 / 8\<rparr>,
              \<lparr>line_product_id = ''000000000000000000000001'',
               line_title = Some ''Smiley Minimal Tee'', line_size = ''L'',
               line_quantity = 1, line_unit_price = 24, line_total = 24\<rparr>],
           order_customer = alice, order_total = 7119 / 50, order_status = ''received''\<rparr>)"
proof -
  have found: "map (\<lambda>x. resolve outlet_shop (product_id x)) (items sticker_order) =
      map Some [SEED_PRODUCTS decimal_runtime ! 0, sticker, SEED_PRODUCTS decimal_runtime ! 1]"
    by (simp add: sticker_order_def resolve_outlet)
  have ins: "InsertOne ''order'' \<notin> set (failing outlet_shop)"
    and get: "FindOne ''order'' (new_oid (orders outlet_store)) \<notin> set (failing outlet_shop)"
    and room: "new_oid (orders outlet_store) < 16 ^ 24"
    by (simp_all add: outlet_shop_fields)
  show ?thesis
    unfolding create_order_placed[OF outlet_shop_fields(1) found ins get room refl,
        of decimal_runtime]
    by (simp add: sticker_order_def order_line_def seed_prices sticker_def decimal_ops
        decimal_round2_tie outlet_shop_fields str_oid_examples)
qed

section \<open>The claims\<close>

subsection \<open>Unresolved items\<close>

text \<open>
  Claim C2. When the cart has a product identifier that does not resolve, the placement
  fails at the first such item \<open>it\<close> with the 404 ``Product not found'' naming
  \<open>it\<close>'s identifier. The store comes back as it was but for the call log: no order
  document is written, whatever items came before. The log grows by the lookups of the
  items up to and including \<open>it\<close> and by nothing else, so no later item is looked up.
\<close>

theorem order_with_unresolved_item_fails:
  assumes "find (\<lambda>x. resolve w (product_id x) = None) (items order) = Some it"
  shows "create_order R w order =
     (Inl (HTTPException 404 (''Product not found: '' @ product_id it)),
      w\<lparr>calls := calls w @
         lookup_calls w
           (takeWhile (\<lambda>x. resolve w (product_id x) \<noteq> None) (items order) @ [it])\<rparr>)"
proof -
  from find_first[OF assms] obtain post where
    split: "items order =
      takeWhile (\<lambda>x. resolve w (product_id x) \<noteq> None) (items order) @ it # post"
    and bad: "resolve w (product_id it) = None"
    by auto
  have pre: "\<forall>x\<in>set (takeWhile (\<lambda>x. resolve w (product_id x) \<noteq> None) (items order)).
      resolve w (product_id x) \<noteq> None"
    by (auto dest: set_takeWhileD)
  show ?thesis
    by (rule create_order_first_unresolved[OF split pre bad])
qed

theorem order_with_unresolved_item_fails_witness:
  "find (\<lambda>x. resolve seeded_shop (product_id x) = None) (items broken_order) =
     Some \<lparr>product_id = ''does-not-exist'', item_size = ''L'', quantity = 1\<rparr> \<and>
   create_order decimal_runtime seeded_shop broken_order =
     (Inl (HTTPException 404 ''Product not found: does-not-exist''),
      seeded_shop\<lparr>calls := [FindOne ''product'' 0]\<rparr>)"
proof -
  have first: "find (\<lambda>x. resolve seeded_shop (product_id x) = None) (items broken_order) =
      Some \<lparr>product_id = ''does-not-exist'', item_size = ''L'', quantity = 1\<rparr>"
    by (simp add: broken_order_def resolve_seeded)
  show ?thesis
    using order_with_unresolved_item_fails[OF first, of decimal_runtime] first
    by (simp add: broken_order_def resolve_seeded find_calls_seeded)
       (simp add: seeded_shop_def)
qed

text \<open>
  Claim C10. A product identifier that \<^verbatim>\<open>ObjectId\<close> cannot parse passes the request
  validation and, when the items before it resolve, ends the placement with the same 404
  ``Product not found'' naming that text: neither a validation error nor a server error.
  The rejected text never reaches the store.
\<close>

theorem malformed_product_id_is_not_found:
  assumes "OrderCreate_valid order"
    and "items order = pre @ it # post"
    and "\<forall>x\<in>set pre. resolve w (product_id x) \<noteq> None"
    and "ObjectId (product_id it) = None"
  shows "post_api_order R w order =
     (Inl (HTTPException 404 (''Product not found: '' @ product_id it)),
      w\<lparr>calls := calls w @ lookup_calls w pre\<rparr>)"
  using create_order_first_unresolved[OF assms(2,3) resolve_malformed[OF assms(4)], of R]
    assms(1)
  by (simp add: post_api_order_def find_calls_malformed[OF assms(4)])

theorem malformed_product_id_is_not_found_witness:
  "OrderCreate_valid broken_order \<and>
   ObjectId ''does-not-exist'' = None \<and>
   post_api_order decimal_runtime seeded_shop broken_order =
     (Inl (HTTPException 404 ''Product not found: does-not-exist''),
      seeded_shop\<lparr>calls := [FindOne ''product'' 0]\<rparr>)"
proof -
  have valid: "OrderCreate_valid broken_order"
    by (simp add: broken_order_def OrderCreate_valid_def CartItem_valid_def)
  have split: "items broken_order =
      [\<lparr>product_id = ''000000000000000000000000'', item_size = ''M'', quantity = 2\<rparr>] @
      \<lparr>product_id = ''does-not-exist'', item_size = ''L'', quantity = 1\<rparr> #
      [\<lparr>product_id = ''000000000000000000000001'', item_size = ''S'', quantity = 1\<rparr>]"
    by (simp add: broken_order_def)
  have pre: "\<forall>x\<in>set [\<lparr>product_id = ''000000000000000000000000'', item_size = ''M'',
      quantity = 2\<rparr>]. resolve seeded_shop (product_id x) \<noteq> None"
    by (simp add: resolve_seeded)
  have bad: "ObjectId (product_id \<lparr>product_id = ''does-not-exist'', item_size = ''L'',
      quantity = 1\<rparr>) = None"
    by (simp add: ObjectId_examples)
  show ?thesis
    using malformed_product_id_is_not_found[OF valid split pre bad, of decimal_runtime] valid
    by (simp add: ObjectId_examples find_calls_seeded) (simp add: seeded_shop_def)
qed

text \<open>
  Claim C3, as the code has it. The claim says that a store failure during the lookup of
  a product ends the placement with a server-side failure and not with ``Product not
  found''. The lookup sits in \<^verbatim>\<open>try\<close> with \<^verbatim>\<open>except Exception: prod = None\<close>, so
  the failure is taken for a missing product. Without a connection the placement of one
  hoodie answers 404:
\<close>

theorem absent_connection_counterexample:
  "db offline_shop = None \<and>
   fst (product_find_one offline_shop ''000000000000000000000000'') = Inl TypeError \<and>
   create_order decimal_runtime offline_shop hoodie_order =
     (Inl (HTTPException 404 ''Product not found: 000000000000000000000000''), offline_shop) \<and>
   status_code (HTTPException 404 ''Product not found: 000000000000000000000000'') = 404"
  by (simp add: create_order_def hoodie_order_def lookup_product_def product_find_one_def
      offline_shop_def)

text \<open>
  Claim C3, amended. When the lookup of an item raises because the connection is absent
  (\<^verbatim>\<open>TypeError\<close>) or because the store fails the call, and the items before it
  resolve, the placement ends with the 404 ``Product not found'' naming that item's
  identifier, and no order is created: the store comes back as it was but for the call
  log.
\<close>

theorem store_failure_in_lookup_is_not_found:
  assumes "items order = pre @ it # post"
    and "\<forall>x\<in>set pre. resolve w (product_id x) \<noteq> None"
    and "fst (product_find_one w (product_id it)) = Inl TypeError
       \<or> fst (product_find_one w (product_id it)) = Inl StoreUnavailable"
  shows "create_order R w order =
     (Inl (HTTPException 404 (''Product not found: '' @ product_id it)),
      w\<lparr>calls := calls w @ lookup_calls w (pre @ [it])\<rparr>)"
proof -
  from assms(3) have "resolve w (product_id it) = None"
    by (auto dest: resolve_store_failure)
  then show ?thesis
    by (rule create_order_first_unresolved[OF assms(1,2)])
qed

theorem store_failure_in_lookup_is_not_found_witness:
  "fst (product_find_one flaky_shop ''000000000000000000000001'') = Inl StoreUnavailable \<and>
   create_order decimal_runtime flaky_shop pair_order =
     (Inl (HTTPException 404 ''Product not found: 000000000000000000000001''),
      flaky_shop\<lparr>calls := [FindOne ''product'' 0, FindOne ''product'' 1]\<rparr>)"
proof -
  have split: "items pair_order =
      [\<lparr>product_id = ''000000000000000000000000'', item_size = ''XXXL'', quantity = 1\<rparr>] @
      \<lparr>product_id = ''000000000000000000000001'', item_size = ''S'', quantity = 3\<rparr> # []"
    by (simp add: pair_order_def)
  have pre: "\<forall>x\<in>set [\<lparr>product_id = ''000000000000000000000000'', item_size = ''XXXL'',
      quantity = 1\<rparr>]. resolve flaky_shop (product_id x) \<noteq> None"
    by (simp add: resolve_flaky)
  have bad: "fst (product_find_one flaky_shop (product_id \<lparr>product_id =
        ''000000000000000000000001'', item_size = ''S'', quantity = 3\<rparr>)) = Inl TypeError
     \<or> fst (product_find_one flaky_shop (product_id \<lparr>product_id =
        ''000000000000000000000001'', item_size = ''S'', quantity = 3\<rparr>)) = Inl StoreUnavailable"
    by (simp add: resolve_flaky)
  show ?thesis
    using store_failure_in_lookup_is_not_found[OF split pre bad, of decimal_runtime]
    by (simp add: resolve_flaky find_calls_flaky) (simp add: flaky_shop_def seeded_shop_def)
qed

subsection \<open>Request validation\<close>

text \<open>
  Claim C5. A request with a cart item whose quantity is below 1 or above 10 is answered
  with the validation error; the handler does not run, and the store comes back
  untouched, with no call logged.
\<close>

theorem quantity_out_of_range_rejected:
  assumes "\<exists>x\<in>set (items body). quantity x < 1 \<or> 10 < quantity x"
  shows "post_api_order R w body = (Inl RequestValidationError, w)"
  using assms
  by (auto simp: post_api_order_def OrderCreate_valid_def CartItem_valid_def list_all_iff)

theorem quantity_out_of_range_rejected_witness:
  "(\<exists>x\<in>set (items bulk_order). quantity x < 1 \<or> 10 < quantity x) \<and>
   post_api_order decimal_runtime seeded_shop bulk_order =
     (Inl RequestValidationError, seeded_shop)"
proof -
  have bad: "\<exists>x\<in>set (items bulk_order). quantity x < 1 \<or> 10 < quantity x"
    by (simp add: bulk_order_def)
  from quantity_out_of_range_rejected[OF bad] bad show ?thesis
    by simp
qed

text \<open>
  Claim C4, as the code has it. The claim says that a request with no items is rejected
  by the validation and that no order is persisted. \<^verbatim>\<open>items: List[CartItem]\<close> has no
  minimum length and the handler does not test for one: the empty cart passes, and on an
  empty shop the handler stores and returns an order with no lines.
\<close>

theorem empty_cart_counterexample:
  "items empty_order = [] \<and>
   post_api_order decimal_runtime empty_shop empty_order =
     (Inr (''000000000000000000000000'',
           \<lparr>order_items = [], order_customer = alice, order_total = 0,
            order_status = ''received''\<rparr>),
      empty_shop\<lparr>db := Some \<lparr>products = [], orders =
              [(0, \<lparr>order_items = [], order_customer = alice, order_total = 0,
                    order_status = ''received''\<rparr>)]\<rparr>,
        calls := [InsertOne ''order'', FindOne ''order'' 0]\<rparr>)"
  by (simp add: empty_order_def post_api_order_def OrderCreate_valid_def create_order_def
      create_document_order_def order_find_one_def empty_shop_def str_oid_examples
      ObjectId_examples serialize_doc_def decimal_ops decimal_round2_examples)

text \<open>
  Claim C4, amended. A request whose item sequence is empty passes the validation and
  the handler runs with it; on a store that takes the insert and the fetch, the handler
  looks up no product, persists an order document with no line items, the total
  \<^verbatim>\<open>round(0.0, 2)\<close> and the status \<^verbatim>\<open>received\<close>, and returns it.
\<close>

theorem empty_cart_is_accepted:
  assumes "items body = []"
    and "db w = Some s"
    and "InsertOne ''order'' \<notin> set (failing w)"
    and "FindOne ''order'' (new_oid (orders s)) \<notin> set (failing w)"
    and "new_oid (orders s) < 16 ^ 24"
  shows "post_api_order R w body =
     (Inr (str_oid (new_oid (orders s)),
           \<lparr>order_items = [], order_customer = customer body,
            order_total = round2 R (float_of_int R 0), order_status = ''received''\<rparr>),
      w\<lparr>db := Some (s\<lparr>orders := orders s @
              [(new_oid (orders s),
                \<lparr>order_items = [], order_customer = customer body,
                 order_total = round2 R (float_of_int R 0),
                 order_status = ''received''\<rparr>)]\<rparr>),
        calls := calls w @ [InsertOne ''order'', FindOne ''order'' (new_oid (orders s))]\<rparr>)"
proof -
  have found: "map (\<lambda>x. resolve w (product_id x)) (items body) = map Some []"
    by (simp add: assms(1))
  have valid: "OrderCreate_valid body"
    by (simp add: OrderCreate_valid_def assms(1))
  show ?thesis
    using create_order_placed[OF assms(2) found assms(3,4,5) refl, of R] valid
    by (simp add: post_api_order_def assms(1))
qed

theorem empty_cart_is_accepted_witness:
  "items empty_order = [] \<and>
   post_api_order decimal_runtime seeded_shop empty_order =
     (Inr (''000000000000000000000000'',
           \<lparr>order_items = [], order_customer = alice, order_total = 0,
            order_status = ''received''\<rparr>),
      seeded_shop\<lparr>db := Some (seeded_store\<lparr>orders :=
              [(0, \<lparr>order_items = [], order_customer = alice, order_total = 0,
                    order_status = ''received''\<rparr>)]\<rparr>),
        calls := [InsertOne ''order'', FindOne ''order'' 0]\<rparr>)"
proof -
  have none: "items empty_order = []"
    by (simp add: empty_order_def)
  have ins: "InsertOne ''order'' \<notin> set (failing seeded_shop)"
    and get: "FindOne ''order'' (new_oid (orders seeded_store)) \<notin> set (failing seeded_shop)"
    and room: "new_oid (orders seeded_store) < 16 ^ 24"
    by (simp_all add: seeded_shop_fields)
  show ?thesis
    using empty_cart_is_accepted[OF none seeded_shop_fields(1) ins get room, of decimal_runtime]
    by (simp add: seeded_shop_fields str_oid_examples decimal_ops decimal_round2_examples
        empty_order_def)
qed

subsection \<open>Placed orders\<close>

text \<open>
  The next three claims are about a placement whose items all resolve: \<open>ps\<close> are the
  products that the lookups return, item by item. The store has a connection, takes the
  insert of the order and the fetch that follows, and has an identifier left.
\<close>

text \<open>
  Claim C1. The returned order's total is \<^verbatim>\<open>round(_, 2)\<close> of the line totals added up
  from \<^verbatim>\<open>0.0\<close> in cart order; each line total is the line's unit price times its
  quantity; each unit price is the price of the product that the item's lookup returned
  (\<^verbatim>\<open>0\<close> when the document has no price); the status is \<^verbatim>\<open>received\<close>.
\<close>

theorem placed_order_totals:
  assumes "db w = Some s"
    and "map (\<lambda>x. resolve w (product_id x)) (items order) = map Some ps"
    and "InsertOne ''order'' \<notin> set (failing w)"
    and "FindOne ''order'' (new_oid (orders s)) \<notin> set (failing w)"
    and "new_oid (orders s) < 16 ^ 24"
  shows "case fst (create_order R w order) of
           Inl e \<Rightarrow> False
         | Inr saved \<Rightarrow>
             order_total (snd saved) =
               round2 R (foldl (float_add R) (float_of_int R 0)
                              (map line_total (order_items (snd saved)))) \<and>
             map line_total (order_items (snd saved)) =
               map (\<lambda>l. float_mul R (line_unit_price l) (float_of_int R (line_quantity l)))
                 (order_items (snd saved)) \<and>
             map line_quantity (order_items (snd saved)) = map quantity (items order) \<and>
             map line_unit_price (order_items (snd saved)) =
               map (\<lambda>p. case prod_price p of None \<Rightarrow> float_of_int R 0 | Some v \<Rightarrow> v) ps \<and>
             order_status (snd saved) = ''received''"
proof -
  have len: "length (items order) = length ps"
    using assms(2) by (rule map_eq_imp_length_eq[THEN trans]) simp
  show ?thesis
    unfolding create_order_placed[OF assms refl]
    using order_lines_fields(3,5)[OF len, of R] order_lines_totals[of R "items order" ps]
    by simp
qed

theorem placed_order_totals_witness:
  "map (\<lambda>x. resolve outlet_shop (product_id x)) (items sticker_order) =
     map Some [SEED_PRODUCTS decimal_runtime ! 0, sticker, SEED_PRODUCTS decimal_runtime ! 1] \<and>
   (case fst (create_order decimal_runtime outlet_shop sticker_order) of
      Inl e \<Rightarrow> False
    | Inr saved \<Rightarrow>
        order_total (snd saved) = 142.38 \<and>
        foldl (+) 0 (map line_total (order_items (snd saved))) = 142.375 \<and>
        map line_total (order_items (snd saved)) = [118, 0.375, 24] \<and>
        map line_quantity (order_items (snd saved)) = [2, 3, 1] \<and>
        map line_unit_price (order_items (snd saved)) = [59, 0.125, 24] \<and>
        order_status (snd saved) = ''received'')"
proof -
  have found: "map (\<lambda>x. resolve outlet_shop (product_id x)) (items sticker_order) =
      map Some [SEED_PRODUCTS decimal_runtime ! 0, sticker, SEED_PRODUCTS decimal_runtime ! 1]"
    by (simp add: sticker_order_def resolve_outlet)
  have ins: "InsertOne ''order'' \<notin> set (failing outlet_shop)"
    and get: "FindOne ''order'' (new_oid (orders outlet_store)) \<notin> set (failing outlet_shop)"
    and room: "new_oid (orders outlet_store) < 16 ^ 24"
    by (simp_all add: outlet_shop_fields)
  from placed_order_totals[OF outlet_shop_fields(1) found ins get room, of decimal_runtime]
  show ?thesis
    unfolding sticker_order_placed using found by simp
qed

text \<open>
  Claim C6. The persisted order document is the returned one, appended to the
  collection; its line items follow the cart item by item, and each holds the item's
  product identifier, the title of the product found, the item's size and quantity, the
  unit price and the line total.
\<close>

theorem placed_order_lines:
  assumes "db w = Some s"
    and "map (\<lambda>x. resolve w (product_id x)) (items order) = map Some ps"
    and "InsertOne ''order'' \<notin> set (failing w)"
    and "FindOne ''order'' (new_oid (orders s)) \<notin> set (failing w)"
    and "new_oid (orders s) < 16 ^ 24"
  shows "case create_order R w order of
           (Inl e, w') \<Rightarrow> False
         | (Inr saved, w') \<Rightarrow>
             map_option orders (db w') =
               Some (orders s @ [(new_oid (orders s), snd saved)]) \<and>
             length (order_items (snd saved)) = length (items order) \<and>
             map line_product_id (order_items (snd saved)) = map product_id (items order) \<and>
             order_items (snd saved) =
               map2 (\<lambda>x p.
                  \<lparr>line_product_id = product_id x,
                   line_title = prod_title p,
                   line_size = item_size x,
                   line_quantity = quantity x,
                   line_unit_price =
                     (case prod_price p of None \<Rightarrow> float_of_int R 0 | Some v \<Rightarrow> v),
                   line_total =
                     float_mul R
                       (case prod_price p of None \<Rightarrow> float_of_int R 0 | Some v \<Rightarrow> v)
                       (float_of_int R (quantity x))\<rparr>) (items order) ps"
proof -
  have len: "length (items order) = length ps"
    using assms(2) by (rule map_eq_imp_length_eq[THEN trans]) simp
  show ?thesis
    unfolding create_order_placed[OF assms refl]
    using order_lines_fields(1)[OF len, of R] len
    by (simp add: order_lines_explicit[symmetric])
qed

theorem placed_order_lines_witness:
  "map (\<lambda>x. resolve seeded_shop (product_id x)) (items pair_order) =
     map Some [SEED_PRODUCTS decimal_runtime ! 0, SEED_PRODUCTS decimal_runtime ! 1] \<and>
   (case create_order decimal_runtime seeded_shop pair_order of
      (Inl e, w') \<Rightarrow> False
    | (Inr saved, w') \<Rightarrow>
        map_option orders (db w') = Some [(0, snd saved)] \<and>
        order_items (snd saved) =
          [\<lparr>line_product_id = ''000000000000000000000000'',
            line_title = Some ''Smiley Classic Hoodie'', line_size = ''XXXL'',
            line_quantity = 1, line_unit_price = 59, line_total = 59\<rparr>,
           \<lparr>line_product_id = ''000000000000000000000001'',
            line_title = Some ''Smiley Minimal Tee'', line_size = ''S'',
            line_quantity = 3, line_unit_price = 24, line_total = 72\<rparr>])"
proof -
  have found: "map (\<lambda>x. resolve seeded_shop (product_id x)) (items pair_order) =
      map Some [SEED_PRODUCTS decimal_runtime ! 0, SEED_PRODUCTS decimal_runtime ! 1]"
    by (simp add: pair_order_def resolve_seeded)
  have ins: "InsertOne ''order'' \<notin> set (failing seeded_shop)"
    and get: "FindOne ''order'' (new_oid (orders seeded_store)) \<notin> set (failing seeded_shop)"
    and room: "new_oid (orders seeded_store) < 16 ^ 24"
    by (simp_all add: seeded_shop_fields)
  show ?thesis
    using placed_order_lines[OF seeded_shop_fields(1) found ins get room, of decimal_runtime]
      found
    by (auto split: sum.splits prod.splits simp: pair_order_def seed_prices decimal_ops
        seeded_shop_fields)
qed

text \<open>
  Claim C9. The placement succeeds whatever the size texts are: nothing relates
  \<open>item_size\<close> to the product's \<open>prod_sizes\<close>. The order document is appended to the
  collection \<^verbatim>\<open>order\<close>, and the line items of this persisted document, which is also
  the returned one, have the size texts of the cart items, one by one and unchanged. In
  the witness the hoodie is ordered in a size it does not list.
\<close>

theorem size_is_not_checked:
  assumes "db w = Some s"
    and "map (\<lambda>x. resolve w (product_id x)) (items order) = map Some ps"
    and "InsertOne ''order'' \<notin> set (failing w)"
    and "FindOne ''order'' (new_oid (orders s)) \<notin> set (failing w)"
    and "new_oid (orders s) < 16 ^ 24"
  shows "case create_order R w order of
           (Inl e, w') \<Rightarrow> False
         | (Inr saved, w') \<Rightarrow>
             map_option orders (db w') =
               Some (orders s @ [(new_oid (orders s), snd saved)]) \<and>
             map line_size (order_items (snd saved)) = map item_size (items order)"
proof -
  have len: "length (items order) = length ps"
    using assms(2) by (rule map_eq_imp_length_eq[THEN trans]) simp
  show ?thesis
    unfolding create_order_placed[OF assms refl]
    using order_lines_fields(2)[OF len, of R] by simp
qed

theorem size_is_not_checked_witness:
  "map (\<lambda>x. resolve seeded_shop (product_id x)) (items pair_order) =
     map Some [SEED_PRODUCTS decimal_runtime ! 0, SEED_PRODUCTS decimal_runtime ! 1] \<and>
   ''XXXL'' \<notin> set (prod_sizes (SEED_PRODUCTS decimal_runtime ! 0)) \<and>
   (case create_order decimal_runtime seeded_shop pair_order of
      (Inl e, w') \<Rightarrow> False
    | (Inr saved, w') \<Rightarrow>
        map_option (map (\<lambda>doc. map line_size (order_items (snd doc))) \<circ> orders) (db w') =
          Some [[''XXXL'', ''S'']] \<and>
        map line_size (order_items (snd saved)) = [''XXXL'', ''S''])"
proof -
  have found: "map (\<lambda>x. resolve seeded_shop (product_id x)) (items pair_order) =
      map Some [SEED_PRODUCTS decimal_runtime ! 0, SEED_PRODUCTS decimal_runtime ! 1]"
    by (simp add: pair_order_def resolve_seeded)
  have ins: "InsertOne ''order'' \<notin> set (failing seeded_shop)"
    and get: "FindOne ''order'' (new_oid (orders seeded_store)) \<notin> set (failing seeded_shop)"
    and room: "new_oid (orders seeded_store) < 16 ^ 24"
    by (simp_all add: seeded_shop_fields)
  show ?thesis
    using size_is_not_checked[OF seeded_shop_fields(1) found ins get room, of decimal_runtime]
      found
    by (auto split: sum.splits prod.splits simp: pair_order_def seed_prices seeded_shop_fields)
qed

subsection \<open>The catalog\<close>

text \<open>
  Claim C8. Whatever the request and the state of the store, and whether the placement
  succeeds or fails, the product collection after \<^verbatim>\<open>POST /api/order\<close> is the one
  before, and the request adds no write to the collection \<^verbatim>\<open>product\<close> to the call
  log.
\<close>

theorem order_placement_leaves_catalog:
  "map_option products (db (snd (post_api_order R w body))) = map_option products (db w) \<and>
   filter writes_products (calls (snd (post_api_order R w body))) =
     filter writes_products (calls w)"
  using create_order_same_catalog[of w R body]
  by (simp add: post_api_order_def same_catalog_def)

text \<open>
  Claim C7, on a handle that refuses the truth test. \<^verbatim>\<open>ensure_seed_products\<close> tests
  the handle with \<^verbatim>\<open>if db\<close> where \<^verbatim>\<open>test_database\<close> compares \<^verbatim>\<open>db is not None\<close>.
  On a connected store whose handle raises on the truth test, the exception is swallowed
  and the first listing of the empty catalog inserts nothing and returns no product.
\<close>

theorem seeding_skipped_by_truth_test:
  "handle_truth strict_runtime = None \<and>
   db empty_shop = Some \<lparr>products = [], orders = []\<rparr> \<and>
   list_products strict_runtime empty_shop None =
     (Inr [], empty_shop\<lparr>calls := [Find ''product'' None]\<rparr>)"
  by (simp add: list_products_def ensure_seed_products_def count_products_def
      get_documents_product_def strict_runtime_def decimal_runtime_def empty_shop_def)


end
